theory Spec2Isabelle
  imports Main "HOL-Library.Word"
begin

section \<open>go-qemu: disk images over the qemu-img command line\<close>

text \<open>
  A shallow embedding of the image layer of go-qemu (package qemu): the Image and
  Snapshot structures, the constructors, the two optimisation profiles, and the
  methods that render a qemu-img command line, run it and read its output back.

  Go values are modelled as follows.
  \<^item> string is \<open>string\<close>; \<open>len(s) > 0\<close> is \<open>length s > 0\<close>; \<open>+\<close> and the verb \<open>%s\<close>
    of fmt.Sprintf are \<open>@\<close>.
  \<^item> uint64 and int64 are \<open>64 word\<close>; an int64 is read with \<open>sint\<close> where it is printed.
  \<^item> int (the snapshot ID) is \<open>int\<close>, within the 64-bit range that strconv.Atoi checks.
  \<^item> A slice is a list; the nil slice and the empty slice are both \<open>[]\<close>.
  \<^item> A Go function returning \<open>(T, error)\<close> returns the pair of a value and an
    \<open>error option\<close>: Go hands back both, and the callers of NewEncryptedImage
    may read the value next to a non-nil error.
  \<^item> A method with a pointer receiver returns the new value of the receiver.
\<close>

subsection \<open>Constants\<close>

definition ImageFormatQCOW2 :: string where "ImageFormatQCOW2 = ''qcow2''"
definition CompatLevelQCOW3 :: string where "CompatLevelQCOW3 = ''1.1''"
definition CipherAlgorithmAES256 :: string where "CipherAlgorithmAES256 = ''aes-256''"
definition CipherHashAlgorithmSHA256 :: string where "CipherHashAlgorithmSHA256 = ''sha256''"
definition CipherFormatLUKS :: string where "CipherFormatLUKS = ''luks''"
definition CipherModeXTS :: string where "CipherModeXTS = ''xts''"
definition IVGenAlgPlain64 :: string where "IVGenAlgPlain64 = ''plain64''"
definition IVGenHashAlgorithmSHA256 :: string where "IVGenHashAlgorithmSHA256 = ''sha256''"

subsection \<open>Data\<close>

text \<open>
  time.Time is kept symbolic: a value is either the zero time or the result of
  \<open>time.Unix(sec, nsec)\<close>, recorded with its two arguments.
\<close>

datatype Time = TimeZero | Unix "64 word" "64 word"

record Snapshot =
  ID :: int
  Name :: string
  Date :: Time
  VMClock :: Time

record Image =
  Path :: string
  Format :: string
  Size :: "64 word"
  Secret :: string
  BackingFile :: string
  Encrypted :: bool
  LazyRefcounts :: bool
  CompatLevel :: string
  RefcountBits :: "64 word"
  ClusterSizeKB :: "64 word"
  ExtendedL2 :: bool
  Preallocation :: string
  CipherAlgorithm :: string
  CipherMode :: string
  CipherFormat :: string
  CipherHashAlg :: string
  EncryptIterTime :: "64 word"
  EncryptIvGenAlg :: string
  EncryptIvGenHashAlg :: string
  snapshots :: "Snapshot list"

text \<open>The zero values that \<open>var snap Snapshot\<close> and \<open>var img Image\<close> declare.\<close>

definition zero_Snapshot :: Snapshot where
  "zero_Snapshot = \<lparr>ID = 0, Name = [], Date = TimeZero, VMClock = TimeZero\<rparr>"

definition zero_Image :: Image where
  "zero_Image =
     \<lparr>Path = [], Format = [], Size = 0, Secret = [], BackingFile = [],
      Encrypted = False, LazyRefcounts = False, CompatLevel = [],
      RefcountBits = 0, ClusterSizeKB = 0, ExtendedL2 = False, Preallocation = [],
      CipherAlgorithm = [], CipherMode = [], CipherFormat = [], CipherHashAlg = [],
      EncryptIterTime = 0, EncryptIvGenAlg = [], EncryptIvGenHashAlg = [],
      snapshots = []\<rparr>"

text \<open>Every error of this file is made by fmt.Errorf; it carries its message.\<close>

datatype error = Errorf string

subsection \<open>Numbers as text\<close>

text \<open>
  \<open>strconv.FormatUint(u, 10)\<close> and the verb \<open>%d\<close> print a number in decimal, the
  latter with a minus sign for a negative int64. \<open>strconv.Atoi\<close> reads an optional
  sign followed by one or more decimal digits and fails on anything else, and on
  a value outside the range of int (64 bits).
\<close>

definition digit_char :: "nat \<Rightarrow> char" where
  "digit_char d = ''0123456789'' ! d"

fun decimal :: "nat \<Rightarrow> string" where
  "decimal n = (if n < 10 then [digit_char n] else decimal (n div 10) @ [digit_char (n mod 10)])"

declare decimal.simps [simp del]

definition FormatUint10 :: "64 word \<Rightarrow> string" where
  "FormatUint10 u = decimal (unat u)"

definition Sprintf_d :: "64 word \<Rightarrow> string" where
  "Sprintf_d x = (if sint x < 0 then ''-'' @ decimal (nat (- sint x)) else decimal (nat (sint x)))"

definition is_digit :: "char \<Rightarrow> bool" where
  "is_digit c = (48 \<le> (of_char c :: nat) \<and> (of_char c :: nat) \<le> 57)"

fun parse_digits :: "string \<Rightarrow> nat \<Rightarrow> nat option" where
  "parse_digits [] acc = Some acc"
| "parse_digits (c # cs) acc =
     (if is_digit c then parse_digits cs (acc * 10 + ((of_char c :: nat) - 48)) else None)"

definition Atoi :: "string \<Rightarrow> int option" where
  "Atoi s =
     (let (neg, body) =
            (case s of
               [] \<Rightarrow> (False, [])
             | c # cs \<Rightarrow>
                 if c = CHR ''-'' then (True, cs)
                 else if c = CHR ''+'' then (False, cs)
                 else (False, s))
      in if body = [] then None
         else case parse_digits body 0 of
                None \<Rightarrow> None
              | Some n \<Rightarrow>
                  let v = (if neg then - int n else int n)
                  in if - (2 ^ 63) \<le> v \<and> v < 2 ^ 63 then Some v else None)"

subsection \<open>The outside world\<close>

text \<open>
  Three things the methods use are not part of the image layer and are taken as
  parameters, collected in one record:
  \<^item> the external process: given the state of the host, a program and its
    arguments, \<open>CombinedOutput\<close> yields the output, whether \<open>err\<close> is non-nil, and
    the next state of the host;
  \<^item> \<open>json.Unmarshal\<close> into the local structure \<open>imgInfo\<close>: \<open>None\<close> when it returns
    an error, otherwise what the document holds;
  \<^item> \<open>oneLine\<close>, the helper of the package that flattens the output into one line.

  The running system is the state of the host together with the list of the
  commands run so far, oldest first.
\<close>

record snapshotInfo =
  info_ID :: string
  info_Name :: string
  DateSec :: "64 word"
  DateNsec :: "64 word"
  ClockSec :: "64 word"
  ClockNsec :: "64 word"

record imgInfo =
  info_Snapshots :: "snapshotInfo list"
  info_Format :: string
  info_Size :: "64 word"
  info_Encrypted :: bool

text \<open>
  The document that qemu-img prints: the key \<open>encrypted\<close> is optional
  (\<open>json:"encrypted,omitempty"\<close>); the other keys are held as the values that
  decoding stores, the zero value when a key is missing.
\<close>

record info_doc =
  doc_snapshots :: "snapshotInfo list"
  doc_format :: string
  doc_virtual_size :: "64 word"
  doc_encrypted :: "bool option"

definition zero_imgInfo :: imgInfo where
  "zero_imgInfo = \<lparr>info_Snapshots = [], info_Format = [], info_Size = 0, info_Encrypted = False\<rparr>"

text \<open>Decoding stores the keys that are present and leaves the other fields as they are.\<close>

definition store_doc :: "info_doc \<Rightarrow> imgInfo \<Rightarrow> imgInfo" where
  "store_doc d info =
     info\<lparr>info_Snapshots := doc_snapshots d,
          info_Format := doc_format d,
          info_Size := doc_virtual_size d,
          info_Encrypted := (case doc_encrypted d of None \<Rightarrow> info_Encrypted info | Some b \<Rightarrow> b)\<rparr>"

record 'w outside =
  exec_output :: "'w \<Rightarrow> string \<Rightarrow> string list \<Rightarrow> (string \<times> bool) \<times> 'w"
  json_Unmarshal :: "string \<Rightarrow> info_doc option"
  oneLine :: "string \<Rightarrow> string"

record 'w system =
  host :: 'w
  commands :: "(string \<times> string list) list"

definition CombinedOutput ::
  "'w outside \<Rightarrow> string \<Rightarrow> string list \<Rightarrow> 'w system \<Rightarrow> (string \<times> bool) \<times> 'w system" where
  "CombinedOutput E prog args s =
     (let (r, w) = exec_output E (host s) prog args
      in (r, \<lparr>host = w, commands = commands s @ [(prog, args)]\<rparr>))"

subsection \<open>Constructors\<close>

definition NewImage :: "string \<Rightarrow> string \<Rightarrow> 64 word \<Rightarrow> Image" where
  "NewImage path format size' =
     (let img = zero_Image;
          img = img\<lparr>Path := path\<rparr>;
          img = img\<lparr>Format := format\<rparr>;
          img = img\<lparr>Size := size'\<rparr>;
          img = img\<lparr>ClusterSizeKB := 64\<rparr>;
          img = img\<lparr>RefcountBits := 16\<rparr>
      in img)"

definition NewEncryptedImage ::
  "string \<Rightarrow> string \<Rightarrow> string \<Rightarrow> 64 word \<Rightarrow> Image \<times> error option" where
  "NewEncryptedImage path format secret size' =
     (let img = zero_Image;
          img = img\<lparr>Path := path\<rparr>;
          img = img\<lparr>Format := format\<rparr>;
          img = img\<lparr>Size := size'\<rparr>;
          img = img\<lparr>Secret := secret\<rparr>;
          img = img\<lparr>Encrypted := True\<rparr>;
          img = img\<lparr>ClusterSizeKB := 64\<rparr>;
          img = img\<lparr>RefcountBits := 16\<rparr>
      in if format \<noteq> ImageFormatQCOW2
         then (img, Some (Errorf (''encrypted volumes must be of the type 'ImageFormatQCOW2'' @ [CHR 0x27])))
         else (img, None))"

subsection \<open>Optimisation profiles\<close>

definition OptimizeSpeed :: "Image \<Rightarrow> Image" where
  "OptimizeSpeed i =
     (let i = i\<lparr>LazyRefcounts := True\<rparr>;
          i = i\<lparr>CompatLevel := CompatLevelQCOW3\<rparr>;
          i = i\<lparr>RefcountBits := 64\<rparr>;
          i = i\<lparr>ClusterSizeKB := 1024\<rparr>;
          i = i\<lparr>ExtendedL2 := True\<rparr>;
          i = i\<lparr>Preallocation := ''full''\<rparr>
      in if Encrypted i
         then i\<lparr>CipherAlgorithm := CipherAlgorithmAES256,
                CipherHashAlg := CipherHashAlgorithmSHA256,
                CipherFormat := CipherFormatLUKS,
                CipherMode := CipherModeXTS,
                EncryptIvGenAlg := IVGenAlgPlain64,
                EncryptIterTime := 1000,
                EncryptIvGenHashAlg := IVGenHashAlgorithmSHA256\<rparr>
         else i)"

definition OptimizeSize :: "Image \<Rightarrow> Image" where
  "OptimizeSize i =
     (let i = i\<lparr>RefcountBits := 16\<rparr>;
          i = i\<lparr>ClusterSizeKB := 64\<rparr>;
          i = i\<lparr>ExtendedL2 := True\<rparr>;
          i = i\<lparr>Preallocation := ''metadata''\<rparr>
      in if Encrypted i
         then i\<lparr>CipherAlgorithm := CipherAlgorithmAES256,
                CipherHashAlg := CipherHashAlgorithmSHA256,
                CipherFormat := CipherFormatLUKS,
                CipherMode := CipherModeXTS,
                EncryptIvGenAlg := IVGenAlgPlain64,
                EncryptIterTime := 2000,
                EncryptIvGenHashAlg := IVGenHashAlgorithmSHA256\<rparr>
         else i)"

subsection \<open>Reading an image back: qemu-img info\<close>

text \<open>
  The loop of retreiveInfos over \<open>info.Snapshots\<close>; the second argument is
  \<open>i.snapshots\<close>, which the loop appends to. An entry whose ID Atoi rejects is
  skipped by \<open>continue\<close>.
\<close>

fun snapshot_loop :: "snapshotInfo list \<Rightarrow> Snapshot list \<Rightarrow> Snapshot list" where
  "snapshot_loop [] acc = acc"
| "snapshot_loop (snap # rest) acc =
     (case Atoi (info_ID snap) of
        None \<Rightarrow> snapshot_loop rest acc
      | Some n \<Rightarrow>
          (let s = zero_Snapshot;
               s = s\<lparr>ID := n\<rparr>;
               s = s\<lparr>Name := info_Name snap\<rparr>;
               s = s\<lparr>Date := Unix (DateSec snap) (DateNsec snap)\<rparr>;
               s = s\<lparr>VMClock := Unix (ClockSec snap) (ClockNsec snap)\<rparr>
           in snapshot_loop rest (acc @ [s])))"

definition retreiveInfos ::
  "'w outside \<Rightarrow> Image \<Rightarrow> 'w system \<Rightarrow> (Image \<times> error option) \<times> 'w system" where
  "retreiveInfos E i s =
     (let info = zero_imgInfo;
          ((out, err), s) = CombinedOutput E ''qemu-img'' [''info'', ''--output=json'', Path i] s
      in if err
         then ((i, Some (Errorf ([CHR 0x27] @ ''qemu-img info' output: '' @ oneLine E out))), s)
         else
           (case json_Unmarshal E out of
              None \<Rightarrow> ((i, Some (Errorf ([CHR 0x27] @ ''qemu-img info' invalid json output''))), s)
            | Some d \<Rightarrow>
                (let info = store_doc d info;
                     i = i\<lparr>Format := info_Format info\<rparr>;
                     i = i\<lparr>Size := info_Size info\<rparr>;
                     i = (if Secret i \<noteq> []
                          then i\<lparr>Encrypted := True\<rparr>
                          else i\<lparr>Encrypted := info_Encrypted info\<rparr>);
                     i = i\<lparr>snapshots := []\<rparr>;
                     i = i\<lparr>snapshots := snapshot_loop (info_Snapshots info) (snapshots i)\<rparr>
                 in ((i, None), s))))"

text \<open>
  Snapshots has a value receiver: retreiveInfos updates the method's own copy of
  the image, and the caller's image is untouched.
\<close>

definition Snapshots ::
  "'w outside \<Rightarrow> Image \<Rightarrow> 'w system \<Rightarrow> (Snapshot list \<times> error option) \<times> 'w system" where
  "Snapshots E i s =
     (let ((i, err), s) = retreiveInfos E i s
      in case err of
           Some e \<Rightarrow> (([], Some e), s)
         | None \<Rightarrow>
             if length (snapshots i) = 0 then (([], None), s)
             else ((snapshots i, None), s))"

subsection \<open>Snapshots: qemu-img snapshot\<close>

text \<open>
  The scan of CreateSnapshot over the refreshed list; the pair is the state of
  the variables \<open>snap\<close> and \<open>exists\<close>, and \<open>break\<close> ends the scan at the first match.
\<close>

fun find_loop :: "Snapshot list \<Rightarrow> string \<Rightarrow> Snapshot \<times> bool \<Rightarrow> Snapshot \<times> bool" where
  "find_loop [] name (snap, exists) = (snap, exists)"
| "find_loop (s # rest) name (snap, exists) =
     (if Name s = name then (s, True) else find_loop rest name (snap, exists))"

definition snapshot_error :: "'w outside \<Rightarrow> string \<Rightarrow> error" where
  "snapshot_error E out = Errorf ([CHR 0x27] @ ''qemu-img snapshot' output: '' @ oneLine E out)"

definition CreateSnapshot ::
  "'w outside \<Rightarrow> Image \<Rightarrow> string \<Rightarrow> 'w system \<Rightarrow> (Snapshot \<times> error option) \<times> 'w system" where
  "CreateSnapshot E i name s =
     (let snap = zero_Snapshot
      in if Encrypted i = False
         then
           (let ((out, err), s) = CombinedOutput E ''qemu-img'' [''snapshot'', ''-c'', name, Path i] s
            in if err then ((snap, Some (snapshot_error E out)), s)
               else
                 (let ((snaps, err), s) = Snapshots E i s
                  in case err of
                       Some e \<Rightarrow> ((snap, Some e), s)
                     | None \<Rightarrow>
                         (let (snap, exists) = find_loop snaps name (snap, False)
                          in if exists then ((snap, None), s)
                             else ((snap, Some (Errorf ''couldn't find newly created snapshot'')), s))))
         else
           (let ((out, err), s) =
                  CombinedOutput E ''qemu-img''
                    [''snapshot'', ''--object'', ''secret,id=sec0,data='' @ Secret i, ''--image-opts'',
                     ''-c'', name,
                     ''encrypt.format=luks,encrypt.key-secret=sec0,file.filename='' @ Path i] s
            in if err then ((snap, Some (snapshot_error E out)), s)
               else
                 (let ((snaps, err), s) = Snapshots E i s
                  in case err of
                       Some e \<Rightarrow> ((snap, Some e), s)
                     | None \<Rightarrow>
                         (let (snap, exists) = find_loop snaps name (snap, False)
                          in if exists then ((snap, None), s)
                             else ((snap, Some (Errorf ''couldn't find newly created snapshot'')), s)))))"

definition RestoreSnapshot ::
  "'w outside \<Rightarrow> Image \<Rightarrow> string \<Rightarrow> 'w system \<Rightarrow> error option \<times> 'w system" where
  "RestoreSnapshot E i name s =
     (if Encrypted i = False
      then
        (let ((out, err), s) = CombinedOutput E ''qemu-img'' [''snapshot'', ''-a'', name, Path i] s
         in if err then (Some (snapshot_error E out), s) else (None, s))
      else
        (let ((out, err), s) =
               CombinedOutput E ''qemu-img''
                 [''snapshot'', ''--object'', ''secret,id=sec0,data='' @ Secret i, ''--image-opts'',
                  ''-a'', name,
                  ''encrypt.format=luks,encrypt.key-secret=sec0,file.filename='' @ Path i] s
         in if err then (Some (snapshot_error E out), s) else (None, s)))"

definition DeleteSnapshot ::
  "'w outside \<Rightarrow> Image \<Rightarrow> string \<Rightarrow> 'w system \<Rightarrow> error option \<times> 'w system" where
  "DeleteSnapshot E i name s =
     (if Encrypted i = False
      then
        (let ((out, err), s) = CombinedOutput E ''qemu-img'' [''snapshot'', ''-d'', name, Path i] s
         in if err then (Some (snapshot_error E out), s) else (None, s))
      else
        (let ((out, err), s) =
               CombinedOutput E ''qemu-img''
                 [''snapshot'', ''--object'', ''secret,id=sec0,data='' @ Secret i, ''--image-opts'',
                  ''-d'', name,
                  ''encrypt.format=luks,encrypt.key-secret=sec0,file.filename='' @ Path i] s
         in if err then (Some (snapshot_error E out), s) else (None, s)))"

subsection \<open>Creating an image: qemu-img create\<close>

text \<open>
  \<open>args\<close> grows by appending, in the order of the source. A conditional append
  \<open>if c { args = append(args, x...) }\<close> is written \<open>args @ (if c then x else [])\<close>.
\<close>

definition create_error :: "'w outside \<Rightarrow> string \<Rightarrow> error" where
  "create_error E out = Errorf ([CHR 0x27] @ ''qemu-img create' output: '' @ oneLine E out)"

definition Create :: "'w outside \<Rightarrow> Image \<Rightarrow> 'w system \<Rightarrow> error option \<times> 'w system" where
  "Create E i s =
     (if Encrypted i = False
      then
        (let args = [''create'', ''-f'', Format i];
             args = args @ (if length (BackingFile i) > 0
                            then [''-o'', ''backing_file='' @ BackingFile i] else []);
             args = args @ (if length (CompatLevel i) > 0
                            then [''-o'', ''compat='' @ CompatLevel i] else []);
             args = args @ (if ClusterSizeKB i \<noteq> 64
                            then [''-o'', ''cluster_size='' @ Sprintf_d (ClusterSizeKB i) @ ''K''] else []);
             args = args @ (if ExtendedL2 i then [''-o'', ''extended_l2=on''] else []);
             args = args @ (if LazyRefcounts i then [''-o'', ''lazy_refcounts=on''] else []);
             args = args @ (if length (Preallocation i) > 0
                            then [''-o'', ''preallocation='' @ Preallocation i]
                            else [''-o'', ''preallocation=metadata'']);
             args = args @ (if RefcountBits i \<noteq> 16
                            then [''-o'', ''refcount_bits='' @ Sprintf_d (RefcountBits i)] else []);
             args = args @ [Path i];
             args = args @ [FormatUint10 (Size i)];
             ((out, err), s) = CombinedOutput E ''qemu-img'' args s
         in if err then (Some (create_error E out), s) else (None, s))
      else if Format i \<noteq> ImageFormatQCOW2
      then (Some (Errorf ''encrypted volumes must be qcow2 format''), s)
      else
        (let args = [''create'', ''--object'', ''secret,id=sec0,data='' @ Secret i, ''-f'', Format i,
                     ''-o'', ''encrypt.key-secret=sec0''];
             args = args @ (if length (BackingFile i) > 0
                            then [''-o'', ''backing_file='' @ BackingFile i] else []);
             args = args @ (if length (CompatLevel i) > 0
                            then [''-o'', ''compat='' @ CompatLevel i] else []);
             args = args @ (if ClusterSizeKB i \<noteq> 64
                            then [''-o'', ''cluster_size='' @ Sprintf_d (ClusterSizeKB i) @ ''K''] else []);
             args = args @ (if ExtendedL2 i then [''-o'', ''extended_l2=on''] else []);
             args = args @ (if LazyRefcounts i then [''-o'', ''lazy_refcounts=on''] else []);
             args = args @ (if length (Preallocation i) > 0
                            then [''-o'', ''preallocation='' @ Preallocation i]
                            else [''-o'', ''preallocation=metadata'']);
             args = args @ (if RefcountBits i \<noteq> 16
                            then [''-o'', ''refcount_bits='' @ Sprintf_d (RefcountBits i)] else []);
             args = args @ (if EncryptIterTime i \<noteq> 0
                            then [''-o'', ''encrypt.iter-time='' @ Sprintf_d (EncryptIterTime i)] else []);
             args = args @ (if length (EncryptIvGenHashAlg i) > 0
                            then [''-o'', ''encrypt.ivgen-hash-alg='' @ EncryptIvGenHashAlg i] else []);
             args = args @ (if length (EncryptIvGenAlg i) > 0
                            then [''-o'', ''encrypt.ivgen-alg='' @ EncryptIvGenAlg i] else []);
             args = args @ (if length (CipherMode i) > 0
                            then [''-o'', ''encrypt.cipher-mode='' @ CipherMode i] else []);
             args = args @ (if length (CipherAlgorithm i) > 0
                            then [''-o'', ''encrypt.cipher-alg='' @ CipherAlgorithm i] else []);
             args = args @ (if length (CipherHashAlg i) > 0
                            then [''-o'', ''encrypt.hash-alg='' @ CipherHashAlg i] else []);
             args = args @ (if length (CipherFormat i) > 0
                            then [''-o'', ''encrypt.format='' @ CipherFormat i]
                            else [''-o'', ''encrypt.format=luks'']);
             args = args @ [Path i];
             args = args @ [FormatUint10 (Size i)];
             ((out, err), s) = CombinedOutput E ''qemu-img'' args s
         in if err then (Some (create_error E out), s) else (None, s)))"

subsection \<open>Rebasing: qemu-img rebase\<close>

text \<open>Rebase has a pointer receiver: the image of the result is the caller's image afterwards.\<close>

definition Rebase ::
  "'w outside \<Rightarrow> Image \<Rightarrow> string \<Rightarrow> 'w system \<Rightarrow> (Image \<times> error option) \<times> 'w system" where
  "Rebase E i backingFile s =
     (let i = i\<lparr>BackingFile := backingFile\<rparr>;
          ((out, err), s) = CombinedOutput E ''qemu-img'' [''rebase'', ''-b'', backingFile, Path i] s
      in if err
         then ((i, Some (Errorf ([CHR 0x27] @ ''qemu-img rebase' output: '' @ oneLine E out))), s)
         else ((i, None), s))"

subsection \<open>Vocabulary of the properties\<close>

text \<open>
  An option of qemu-img create, with its \<open>-o\<close>, present when the condition holds.
\<close>

definition opt :: "bool \<Rightarrow> string \<Rightarrow> string list" where
  "opt c v = (if c then [''-o'', v] else [])"

text \<open>
  The entries of the document that the specification keeps (those whose \<open>id\<close>
  reads as an integer), and the snapshot it makes of a kept entry.
\<close>

definition spec_accepted :: "snapshotInfo \<Rightarrow> bool" where
  "spec_accepted e = (Atoi (info_ID e) \<noteq> None)"

definition spec_Snapshot :: "snapshotInfo \<Rightarrow> Snapshot" where
  "spec_Snapshot e =
     \<lparr>ID = (case Atoi (info_ID e) of None \<Rightarrow> 0 | Some n \<Rightarrow> n), Name = info_Name e,
      Date = Unix (DateSec e) (DateNsec e), VMClock = Unix (ClockSec e) (ClockNsec e)\<rparr>"

text \<open>The arguments of the command that CreateSnapshot runs first, on either path.\<close>

definition snapshot_c_args :: "Image \<Rightarrow> string \<Rightarrow> string list" where
  "snapshot_c_args i name =
     (if Encrypted i = False then [''snapshot'', ''-c'', name, Path i]
      else [''snapshot'', ''--object'', ''secret,id=sec0,data='' @ Secret i, ''--image-opts'',
            ''-c'', name,
            ''encrypt.format=luks,encrypt.key-secret=sec0,file.filename='' @ Path i])"

text \<open>
  Order of two tokens in an argument list: both occur, and the first occurrence
  of the one is left of the first occurrence of the other.
\<close>

fun position :: "'a \<Rightarrow> 'a list \<Rightarrow> nat option" where
  "position a [] = None"
| "position a (x # xs) = (if x = a then Some 0 else map_option Suc (position a xs))"

definition comes_before :: "'a \<Rightarrow> 'a \<Rightarrow> 'a list \<Rightarrow> bool" where
  "comes_before a b xs =
     (case (position a xs, position b xs) of
        (Some m, Some n) \<Rightarrow> m < n
      | _ \<Rightarrow> False)"

text \<open>The arguments of the command run last.\<close>

definition last_args :: "'w system \<Rightarrow> string list" where
  "last_args s = (case rev (commands s) of [] \<Rightarrow> [] | c # _ \<Rightarrow> snd c)"

subsection \<open>A scripted host for the examples\<close>

text \<open>
  A host that answers every command with the same output and status, counts the
  commands it ran, and decodes every output to the same document.
\<close>

definition scripted :: "string \<times> bool \<Rightarrow> info_doc option \<Rightarrow> nat outside" where
  "scripted r d =
     \<lparr>exec_output = (\<lambda>w prog args. (r, Suc w)),
      json_Unmarshal = (\<lambda>out. d),
      oneLine = (\<lambda>out. out)\<rparr>"

definition boot :: "nat system" where
  "boot = \<lparr>host = 0, commands = []\<rparr>"

definition entry :: "string \<Rightarrow> string \<Rightarrow> snapshotInfo" where
  "entry n name =
     \<lparr>info_ID = n, info_Name = name, DateSec = 1700000000, DateNsec = 0,
      ClockSec = 12, ClockNsec = 500\<rparr>"

definition demo_doc :: "bool option \<Rightarrow> info_doc" where
  "demo_doc enc =
     \<lparr>doc_snapshots = [entry ''1'' ''nightly'', entry ''n/a'' ''broken'', entry ''2'' ''nightly''],
      doc_format = ''qcow2'', doc_virtual_size = 1024, doc_encrypted = enc\<rparr>"

definition quiet_host :: "bool option \<Rightarrow> nat outside" where
  "quiet_host enc = scripted ([], False) (Some (demo_doc enc))"

definition failing_host :: "nat outside" where
  "failing_host = scripted (''qemu-img: Could not open'', True) None"

definition enc_image :: Image where
  "enc_image = fst (NewEncryptedImage ''enc.qcow2'' ''qcow2'' ''secret1'' (5 * 2 ^ 30))"

section \<open>Properties\<close>

lemmas go_constants =
  ImageFormatQCOW2_def CompatLevelQCOW3_def CipherAlgorithmAES256_def
  CipherHashAlgorithmSHA256_def CipherFormatLUKS_def CipherModeXTS_def
  IVGenAlgPlain64_def IVGenHashAlgorithmSHA256_def

lemmas demo_defs =
  scripted_def boot_def entry_def demo_doc_def quiet_host_def failing_host_def enc_image_def

subsection \<open>Auxiliary facts\<close>

lemma CombinedOutput_commands [simp]:
  "commands (snd (CombinedOutput E prog args s)) = commands s @ [(prog, args)]"
  by (simp add: CombinedOutput_def case_prod_beta)

lemma retreiveInfos_commands:
  "commands (snd (retreiveInfos E i s)) =
     commands s @ [(''qemu-img'', [''info'', ''--output=json'', Path i])]"
  by (simp add: retreiveInfos_def Let_def case_prod_beta split: option.splits)

lemma Snapshots_commands:
  "commands (snd (Snapshots E i s)) =
     commands s @ [(''qemu-img'', [''info'', ''--output=json'', Path i])]"
  using retreiveInfos_commands [of E i s]
  by (simp add: Snapshots_def Let_def case_prod_beta split: option.splits)

text \<open>The loop keeps what was collected before it and appends the kept entries in order.\<close>

lemma snapshot_loop_acc:
  "snapshot_loop es acc = acc @ map spec_Snapshot (filter spec_accepted es)"
  by (induction es arbitrary: acc)
     (auto simp: spec_accepted_def spec_Snapshot_def zero_Snapshot_def Let_def
           split: option.splits)

text \<open>What retreiveInfos returns once the tool has answered and its answer decodes.\<close>

lemma retreiveInfos_ok:
  assumes "CombinedOutput E ''qemu-img'' [''info'', ''--output=json'', Path i] s = ((out, False), s')"
    and "json_Unmarshal E out = Some d"
  shows "retreiveInfos E i s =
     ((i\<lparr>Format := doc_format d, Size := doc_virtual_size d,
         Encrypted := (Secret i \<noteq> [] \<or> doc_encrypted d = Some True),
         snapshots := map spec_Snapshot (filter spec_accepted (doc_snapshots d))\<rparr>, None), s')"
  using assms
  by (auto simp: retreiveInfos_def Let_def store_doc_def zero_imgInfo_def snapshot_loop_acc
           split: option.splits)

text \<open>The scan is the library's search for the first element that satisfies a predicate.\<close>

lemma find_loop_find:
  "find_loop xs name (z, False) =
     (case find (\<lambda>x. Name x = name) xs of None \<Rightarrow> (z, False) | Some m \<Rightarrow> (m, True))"
  by (induction xs) auto

lemma snd_if_same: "snd (if c then (a, s) else (b, s)) = s"
  by simp

text \<open>Numbers and texts of the examples.\<close>

lemma decimal_5GiB: "FormatUint10 5368709120 = ''5368709120''"
  by (simp add: FormatUint10_def decimal.simps digit_char_def)

lemma decimal_10GiB: "FormatUint10 10737418240 = ''10737418240''"
  by (simp add: FormatUint10_def decimal.simps digit_char_def)

lemma Sprintf_d_examples:
  "Sprintf_d 1024 = ''1024''" "Sprintf_d 64 = ''64''" "Sprintf_d 1000 = ''1000''"
  by (simp_all add: Sprintf_d_def decimal.simps digit_char_def)

lemma Atoi_examples: "Atoi ''1'' = Some 1" "Atoi ''2'' = Some 2" "Atoi ''n/a'' = None"
  by (simp_all add: Atoi_def is_digit_def)

text \<open>The example image and the answers of the quiet host.\<close>

lemma enc_image_eq:
  "enc_image = zero_Image\<lparr>Path := ''enc.qcow2'', Format := ''qcow2'', Size := 5368709120,
      Secret := ''secret1'', Encrypted := True, ClusterSizeKB := 64, RefcountBits := 16\<rparr>"
  by (simp add: enc_image_def NewEncryptedImage_def Let_def go_constants)

lemma enc_image_Encrypted: "Encrypted enc_image"
  by (simp add: enc_image_eq)

lemma quiet_run:
  "CombinedOutput (quiet_host enc) ''qemu-img'' args \<lparr>host = n, commands = cs\<rparr>
     = (([], False), \<lparr>host = Suc n, commands = cs @ [(''qemu-img'', args)]\<rparr>)"
  by (simp add: CombinedOutput_def quiet_host_def scripted_def)

lemma quiet_Unmarshal: "json_Unmarshal (quiet_host enc) out = Some (demo_doc enc)"
  by (simp add: quiet_host_def scripted_def)

lemma quiet_Snapshots:
  "Snapshots (quiet_host enc) (zero_Image\<lparr>Path := p\<rparr>) \<lparr>host = n, commands = cs\<rparr> =
     (([\<lparr>ID = 1, Name = ''nightly'', Date = Unix 1700000000 0, VMClock = Unix 12 500\<rparr>,
        \<lparr>ID = 2, Name = ''nightly'', Date = Unix 1700000000 0, VMClock = Unix 12 500\<rparr>], None),
      \<lparr>host = Suc n, commands = cs @ [(''qemu-img'', [''info'', ''--output=json'', p])]\<rparr>)"
  using retreiveInfos_ok [where E = "quiet_host enc" and i = "zero_Image\<lparr>Path := p\<rparr>"
      and s = "\<lparr>host = n, commands = cs\<rparr>", OF quiet_run quiet_Unmarshal]
  by (simp add: Snapshots_def Let_def demo_doc_def entry_def zero_Image_def spec_accepted_def
        spec_Snapshot_def Atoi_examples)


subsection \<open>The constructors and the profiles\<close>

text \<open>
  C4. NewEncryptedImage with a format other than qcow2 returns a non-nil error,
  the configuration error of the constructor, together with an image that is
  populated all the same: Encrypted is true, Secret is the given secret, and the
  path, the format and the size are recorded (with the default cluster size and
  refcount width).
\<close>

theorem NewEncryptedImage_bad_format:
  assumes "format \<noteq> ''qcow2''"
  shows "NewEncryptedImage path format secret size' =
           (zero_Image\<lparr>Path := path, Format := format, Size := size', Secret := secret,
                       Encrypted := True, ClusterSizeKB := 64, RefcountBits := 16\<rparr>,
            Some (Errorf (''encrypted volumes must be of the type 'ImageFormatQCOW2'' @ [CHR 0x27])))
         \<and> Encrypted (fst (NewEncryptedImage path format secret size'))
         \<and> Secret (fst (NewEncryptedImage path format secret size')) = secret
         \<and> Path (fst (NewEncryptedImage path format secret size')) = path
         \<and> Format (fst (NewEncryptedImage path format secret size')) = format
         \<and> Size (fst (NewEncryptedImage path format secret size')) = size'
         \<and> snd (NewEncryptedImage path format secret size') \<noteq> None"
  using assms by (simp add: NewEncryptedImage_def ImageFormatQCOW2_def)

theorem NewEncryptedImage_bad_format_witness:
  "''raw'' \<noteq> ''qcow2''
   \<and> Encrypted (fst (NewEncryptedImage ''disk.raw'' ''raw'' ''s3cret'' 1024))
   \<and> Secret (fst (NewEncryptedImage ''disk.raw'' ''raw'' ''s3cret'' 1024)) = ''s3cret''
   \<and> snd (NewEncryptedImage ''disk.raw'' ''raw'' ''s3cret'' 1024) \<noteq> None"
  using NewEncryptedImage_bad_format [of "''raw''" "''disk.raw''" "''s3cret''" 1024] by simp

text \<open>
  C1, as the code has it. OptimizeSize writes RefcountBits, ClusterSizeKB,
  ExtendedL2, Preallocation and, for an encrypted image, the seven cipher fields;
  it does not write LazyRefcounts or CompatLevel. So OptimizeSpeed followed by
  OptimizeSize agrees with OptimizeSize alone on every field except these two,
  which keep what OptimizeSpeed gave them: true and "1.1".
\<close>

theorem OptimizeSpeed_then_OptimizeSize:
  "OptimizeSize (OptimizeSpeed d) =
     (OptimizeSize d)\<lparr>LazyRefcounts := True, CompatLevel := ''1.1''\<rparr>"
  by (simp add: OptimizeSize_def OptimizeSpeed_def go_constants Let_def)

theorem OptimizeSpeed_then_OptimizeSize_witness:
  "OptimizeSize (OptimizeSpeed enc_image) =
     enc_image\<lparr>LazyRefcounts := True, CompatLevel := ''1.1'', RefcountBits := 16,
       ClusterSizeKB := 64, ExtendedL2 := True, Preallocation := ''metadata'',
       CipherAlgorithm := ''aes-256'', CipherHashAlg := ''sha256'', CipherFormat := ''luks'',
       CipherMode := ''xts'', EncryptIvGenAlg := ''plain64'', EncryptIterTime := 2000,
       EncryptIvGenHashAlg := ''sha256''\<rparr>"
  using OptimizeSpeed_then_OptimizeSize [of enc_image]
  by (simp add: OptimizeSize_def Let_def enc_image_eq zero_Image_def go_constants)

text \<open>
  C1, as the claim has it, fails on a fresh plain image: after both profiles
  LazyRefcounts is true and CompatLevel is "1.1", after the size profile alone
  they are false and empty.
\<close>

theorem OptimizeSpeed_then_OptimizeSize_counterexample:
  "LazyRefcounts (OptimizeSize (OptimizeSpeed (NewImage ''test.qcow2'' ''qcow2'' 1024)))
     \<noteq> LazyRefcounts (OptimizeSize (NewImage ''test.qcow2'' ''qcow2'' 1024))
   \<and> CompatLevel (OptimizeSize (OptimizeSpeed (NewImage ''test.qcow2'' ''qcow2'' 1024)))
     \<noteq> CompatLevel (OptimizeSize (NewImage ''test.qcow2'' ''qcow2'' 1024))"
  by (simp add: OptimizeSize_def OptimizeSpeed_def NewImage_def zero_Image_def go_constants)

subsection \<open>Rendering qemu-img create\<close>

text \<open>
  C6. For the image that NewImage returns, with every geometry field at the
  default of the constructor, Create runs qemu-img with exactly the arguments
  create, -f, the format, -o, preallocation=metadata, the path and the size in
  decimal, and no other -o option. For NewImage("test.qcow2", qcow2, 10 * 2^30)
  these are create -f qcow2 -o preallocation=metadata test.qcow2 10737418240.
\<close>

theorem Create_plain_defaults:
  "commands (snd (Create E (NewImage path format size') s)) =
     commands s @
     [(''qemu-img'',
       [''create'', ''-f'', format, ''-o'', ''preallocation=metadata'', path, FormatUint10 size'])]
   \<and> commands (snd (Create E (NewImage ''test.qcow2'' ImageFormatQCOW2 (10 * 2 ^ 30)) s)) =
     commands s @
     [(''qemu-img'',
       [''create'', ''-f'', ''qcow2'', ''-o'', ''preallocation=metadata'', ''test.qcow2'',
        ''10737418240''])]"
  by (simp add: Create_def NewImage_def zero_Image_def Let_def case_prod_beta decimal_10GiB
        go_constants)

theorem Create_plain_defaults_witness:
  "Create (quiet_host None) (NewImage ''test.qcow2'' ''qcow2'' (10 * 2 ^ 30)) boot =
     (None, \<lparr>host = 1, commands = [(''qemu-img'',
       [''create'', ''-f'', ''qcow2'', ''-o'', ''preallocation=metadata'', ''test.qcow2'',
        ''10737418240''])]\<rparr>)"
  using Create_plain_defaults [of "quiet_host None" "''test.qcow2''" "''qcow2''" "10 * 2 ^ 30" boot]
  by (simp add: Create_def NewImage_def zero_Image_def Let_def CombinedOutput_def demo_defs decimal_10GiB)

text \<open>
  C7. For an image with Encrypted set and a format other than qcow2, Create
  returns an error and leaves the system as it was: no argument list is built
  and no command is run.
\<close>

theorem Create_encrypted_bad_format:
  assumes "Encrypted i" and "Format i \<noteq> ''qcow2''"
  shows "Create E i s = (Some (Errorf ''encrypted volumes must be qcow2 format''), s)
         \<and> commands (snd (Create E i s)) = commands s"
  using assms by (simp add: Create_def go_constants)

theorem Create_encrypted_bad_format_witness:
  "Encrypted (fst (NewEncryptedImage ''disk.raw'' ''raw'' ''s3cret'' 1024))
   \<and> Format (fst (NewEncryptedImage ''disk.raw'' ''raw'' ''s3cret'' 1024)) \<noteq> ''qcow2''
   \<and> Create (quiet_host None) (fst (NewEncryptedImage ''disk.raw'' ''raw'' ''s3cret'' 1024)) boot =
       (Some (Errorf ''encrypted volumes must be qcow2 format''), \<lparr>host = 0, commands = []\<rparr>)"
proof -
  have enc: "Encrypted (fst (NewEncryptedImage ''disk.raw'' ''raw'' ''s3cret'' 1024))"
    by (simp add: NewEncryptedImage_def Let_def go_constants)
  have fmt: "Format (fst (NewEncryptedImage ''disk.raw'' ''raw'' ''s3cret'' 1024)) \<noteq> ''qcow2''"
    by (simp add: NewEncryptedImage_def Let_def go_constants)
  from Create_encrypted_bad_format [OF enc fmt, of "quiet_host None" boot] enc fmt
  show ?thesis by (simp add: boot_def)
qed

text \<open>
  C2, as the code has it. For an encrypted qcow2 image Create runs qemu-img with
  create, the secret object, -f and the format; then the key-secret reference;
  then the geometry options in the order backing file, compatibility level,
  cluster size, extended L2, lazy refcounts, preallocation (always present,
  metadata when unset) and refcount bits; then the other encryption options in
  the order iteration time, IV-generator hash, IV-generator algorithm, cipher
  mode, cipher algorithm, cipher hash and cipher format (always present, luks
  when unset); and last the path and the size. Of the encryption options only
  the key-secret reference comes before the geometry options.
\<close>

theorem Create_encrypted_order:
  assumes "Encrypted i" and "Format i = ''qcow2''"
  shows "commands (snd (Create E i s)) =
     commands s @
     [(''qemu-img'',
       [''create'', ''--object'', ''secret,id=sec0,data='' @ Secret i, ''-f'', Format i]
       @ [''-o'', ''encrypt.key-secret=sec0'']
       @ opt (BackingFile i \<noteq> []) (''backing_file='' @ BackingFile i)
       @ opt (CompatLevel i \<noteq> []) (''compat='' @ CompatLevel i)
       @ opt (ClusterSizeKB i \<noteq> 64) (''cluster_size='' @ Sprintf_d (ClusterSizeKB i) @ ''K'')
       @ opt (ExtendedL2 i) ''extended_l2=on''
       @ opt (LazyRefcounts i) ''lazy_refcounts=on''
       @ [''-o'', ''preallocation='' @ (if Preallocation i = [] then ''metadata'' else Preallocation i)]
       @ opt (RefcountBits i \<noteq> 16) (''refcount_bits='' @ Sprintf_d (RefcountBits i))
       @ opt (EncryptIterTime i \<noteq> 0) (''encrypt.iter-time='' @ Sprintf_d (EncryptIterTime i))
       @ opt (EncryptIvGenHashAlg i \<noteq> []) (''encrypt.ivgen-hash-alg='' @ EncryptIvGenHashAlg i)
       @ opt (EncryptIvGenAlg i \<noteq> []) (''encrypt.ivgen-alg='' @ EncryptIvGenAlg i)
       @ opt (CipherMode i \<noteq> []) (''encrypt.cipher-mode='' @ CipherMode i)
       @ opt (CipherAlgorithm i \<noteq> []) (''encrypt.cipher-alg='' @ CipherAlgorithm i)
       @ opt (CipherHashAlg i \<noteq> []) (''encrypt.hash-alg='' @ CipherHashAlg i)
       @ [''-o'', ''encrypt.format='' @ (if CipherFormat i = [] then ''luks'' else CipherFormat i)]
       @ [Path i, FormatUint10 (Size i)])]"
proof (cases "Preallocation i = []"; cases "CipherFormat i = []")
qed (use assms in \<open>simp_all add: Create_def Let_def case_prod_beta opt_def go_constants snd_if_same split del: if_split cong: if_cong\<close>)

theorem Create_encrypted_order_witness:
  "Encrypted (OptimizeSpeed enc_image) \<and> Format (OptimizeSpeed enc_image) = ''qcow2''
   \<and> commands (snd (Create (quiet_host None) (OptimizeSpeed enc_image) boot)) =
     [(''qemu-img'',
       [''create'', ''--object'', ''secret,id=sec0,data=secret1'', ''-f'', ''qcow2'',
        ''-o'', ''encrypt.key-secret=sec0'',
        ''-o'', ''compat=1.1'',
        ''-o'', ''cluster_size=1024K'',
        ''-o'', ''extended_l2=on'',
        ''-o'', ''lazy_refcounts=on'',
        ''-o'', ''preallocation=full'',
        ''-o'', ''refcount_bits=64'',
        ''-o'', ''encrypt.iter-time=1000'',
        ''-o'', ''encrypt.ivgen-hash-alg=sha256'',
        ''-o'', ''encrypt.ivgen-alg=plain64'',
        ''-o'', ''encrypt.cipher-mode=xts'',
        ''-o'', ''encrypt.cipher-alg=aes-256'',
        ''-o'', ''encrypt.hash-alg=sha256'',
        ''-o'', ''encrypt.format=luks'',
        ''enc.qcow2'', ''5368709120''])]"
proof -
  have enc: "Encrypted (OptimizeSpeed enc_image)"
    by (simp add: enc_image_eq OptimizeSpeed_def Let_def)
  have fmt: "Format (OptimizeSpeed enc_image) = ''qcow2''"
    by (simp add: enc_image_eq OptimizeSpeed_def Let_def)
  from Create_encrypted_order [OF enc fmt, of "quiet_host None" boot] enc fmt
  show ?thesis
    by (simp add: enc_image_eq OptimizeSpeed_def Let_def zero_Image_def opt_def go_constants
          boot_def decimal_5GiB Sprintf_d_examples)
qed

text \<open>
  C2, as the claim has it, fails on the image of
  NewEncryptedImage("enc.qcow2", qcow2, "secret1", 5 * 2^30): the cipher format,
  an encryption option, comes after preallocation, a geometry option, and not
  before it.
\<close>

theorem Create_encrypted_order_counterexample:
  "last_args (snd (Create (quiet_host None) enc_image boot)) =
     [''create'', ''--object'', ''secret,id=sec0,data=secret1'', ''-f'', ''qcow2'',
      ''-o'', ''encrypt.key-secret=sec0'',
      ''-o'', ''preallocation=metadata'',
      ''-o'', ''encrypt.format=luks'',
      ''enc.qcow2'', ''5368709120'']
   \<and> comes_before ''preallocation=metadata'' ''encrypt.format=luks''
         (last_args (snd (Create (quiet_host None) enc_image boot)))
   \<and> \<not> comes_before ''encrypt.format=luks'' ''preallocation=metadata''
         (last_args (snd (Create (quiet_host None) enc_image boot)))"
proof -
  have "last_args (snd (Create (quiet_host None) enc_image boot)) =
     [''create'', ''--object'', ''secret,id=sec0,data=secret1'', ''-f'', ''qcow2'',
      ''-o'', ''encrypt.key-secret=sec0'',
      ''-o'', ''preallocation=metadata'',
      ''-o'', ''encrypt.format=luks'',
      ''enc.qcow2'', ''5368709120'']"
    by (simp add: last_args_def Create_def enc_image_eq zero_Image_def Let_def case_prod_beta
          go_constants boot_def decimal_5GiB)
  then show ?thesis
    by (simp add: comes_before_def)
qed

subsection \<open>Reading qemu-img info\<close>

text \<open>
  C3. When the tool has answered and the answer decodes, retreiveInfos succeeds,
  and the image it returns has Encrypted set if its Secret is not empty, whatever
  the document reports (also \<open>encrypted: false\<close>); with an empty Secret,
  Encrypted is the reported value, and false when the document has no such key.
\<close>

theorem retreiveInfos_Encrypted:
  assumes "CombinedOutput E ''qemu-img'' [''info'', ''--output=json'', Path i] s = ((out, False), s')"
    and "json_Unmarshal E out = Some d"
  shows "snd (fst (retreiveInfos E i s)) = None
     \<and> Encrypted (fst (fst (retreiveInfos E i s))) =
         (if Secret i \<noteq> [] then True
          else case doc_encrypted d of None \<Rightarrow> False | Some reported \<Rightarrow> reported)"
  by (auto simp: retreiveInfos_ok [OF assms] split: option.splits)

theorem retreiveInfos_Encrypted_witness:
  "Encrypted (fst (fst (retreiveInfos (quiet_host (Some False)) (zero_Image\<lparr>Path := ''a.qcow2'', Secret := ''secret1''\<rparr>) boot)))
   \<and> \<not> Encrypted (fst (fst (retreiveInfos (quiet_host None) (zero_Image\<lparr>Path := ''a.qcow2'', Encrypted := True\<rparr>) boot)))
   \<and> Encrypted (fst (fst (retreiveInfos (quiet_host (Some True)) (zero_Image\<lparr>Path := ''a.qcow2''\<rparr>) boot)))"
  using
    retreiveInfos_Encrypted [where E = "quiet_host (Some False)"
      and i = "zero_Image\<lparr>Path := ''a.qcow2'', Secret := ''secret1''\<rparr>"
      and s = "\<lparr>host = 0, commands = []\<rparr>", OF quiet_run quiet_Unmarshal]
    retreiveInfos_Encrypted [where E = "quiet_host None"
      and i = "zero_Image\<lparr>Path := ''a.qcow2'', Encrypted := True\<rparr>"
      and s = "\<lparr>host = 0, commands = []\<rparr>", OF quiet_run quiet_Unmarshal]
    retreiveInfos_Encrypted [where E = "quiet_host (Some True)"
      and i = "zero_Image\<lparr>Path := ''a.qcow2''\<rparr>"
      and s = "\<lparr>host = 0, commands = []\<rparr>", OF quiet_run quiet_Unmarshal]
  by (simp add: boot_def demo_doc_def zero_Image_def)

text \<open>
  C5. When the tool has answered and the answer decodes, retreiveInfos succeeds,
  and the snapshots of the image it returns are the entries of the document
  whose \<open>id\<close> Atoi accepts, each converted, in the order of the document; the
  entries whose \<open>id\<close> Atoi rejects are left out and raise no error.
\<close>

theorem retreiveInfos_snapshots:
  assumes "CombinedOutput E ''qemu-img'' [''info'', ''--output=json'', Path i] s = ((out, False), s')"
    and "json_Unmarshal E out = Some d"
  shows "snd (fst (retreiveInfos E i s)) = None
     \<and> snapshots (fst (fst (retreiveInfos E i s))) =
         map spec_Snapshot (filter spec_accepted (doc_snapshots d))"
  by (simp add: retreiveInfos_ok [OF assms])

theorem retreiveInfos_snapshots_witness:
  "snd (fst (retreiveInfos (quiet_host None) (zero_Image\<lparr>Path := ''a.qcow2''\<rparr>) boot)) = None
   \<and> snapshots (fst (fst (retreiveInfos (quiet_host None) (zero_Image\<lparr>Path := ''a.qcow2''\<rparr>) boot))) =
       [\<lparr>ID = 1, Name = ''nightly'', Date = Unix 1700000000 0, VMClock = Unix 12 500\<rparr>,
        \<lparr>ID = 2, Name = ''nightly'', Date = Unix 1700000000 0, VMClock = Unix 12 500\<rparr>]"
  using
    retreiveInfos_snapshots [where E = "quiet_host None"
      and i = "zero_Image\<lparr>Path := ''a.qcow2''\<rparr>"
      and s = "\<lparr>host = 0, commands = []\<rparr>", OF quiet_run quiet_Unmarshal]
  by (simp add: boot_def demo_doc_def entry_def zero_Image_def spec_accepted_def spec_Snapshot_def
        Atoi_examples)

subsection \<open>Snapshots\<close>

text \<open>
  C8. For an encrypted image, the command that each of CreateSnapshot,
  RestoreSnapshot and DeleteSnapshot runs (for CreateSnapshot, the first one)
  carries the Secret of the image itself, in clear, inside the argument
  \<open>secret,id=sec0,data=<secret>\<close> that follows \<open>--object\<close>.
\<close>

theorem snapshot_commands_show_secret:
  assumes "Encrypted i"
  shows "take (Suc (length (commands s))) (commands (snd (CreateSnapshot E i name s))) =
       commands s @
       [(''qemu-img'',
         [''snapshot'', ''--object'', ''secret,id=sec0,data='' @ Secret i, ''--image-opts'',
          ''-c'', name,
          ''encrypt.format=luks,encrypt.key-secret=sec0,file.filename='' @ Path i])]
     \<and> commands (snd (RestoreSnapshot E i name s)) =
       commands s @
       [(''qemu-img'',
         [''snapshot'', ''--object'', ''secret,id=sec0,data='' @ Secret i, ''--image-opts'',
          ''-a'', name,
          ''encrypt.format=luks,encrypt.key-secret=sec0,file.filename='' @ Path i])]
     \<and> commands (snd (DeleteSnapshot E i name s)) =
       commands s @
       [(''qemu-img'',
         [''snapshot'', ''--object'', ''secret,id=sec0,data='' @ Secret i, ''--image-opts'',
          ''-d'', name,
          ''encrypt.format=luks,encrypt.key-secret=sec0,file.filename='' @ Path i])]"
proof (intro conjI)
  show "take (Suc (length (commands s))) (commands (snd (CreateSnapshot E i name s))) =
       commands s @
       [(''qemu-img'',
         [''snapshot'', ''--object'', ''secret,id=sec0,data='' @ Secret i, ''--image-opts'',
          ''-c'', name,
          ''encrypt.format=luks,encrypt.key-secret=sec0,file.filename='' @ Path i])]"
    using assms
    by (simp add: CreateSnapshot_def Let_def case_prod_beta Snapshots_commands
          split: option.splits)
next
  show "commands (snd (RestoreSnapshot E i name s)) =
       commands s @
       [(''qemu-img'',
         [''snapshot'', ''--object'', ''secret,id=sec0,data='' @ Secret i, ''--image-opts'',
          ''-a'', name,
          ''encrypt.format=luks,encrypt.key-secret=sec0,file.filename='' @ Path i])]"
    using assms by (simp add: RestoreSnapshot_def Let_def case_prod_beta)
next
  show "commands (snd (DeleteSnapshot E i name s)) =
       commands s @
       [(''qemu-img'',
         [''snapshot'', ''--object'', ''secret,id=sec0,data='' @ Secret i, ''--image-opts'',
          ''-d'', name,
          ''encrypt.format=luks,encrypt.key-secret=sec0,file.filename='' @ Path i])]"
    using assms by (simp add: DeleteSnapshot_def Let_def case_prod_beta)
qed

theorem snapshot_commands_show_secret_witness:
  "Encrypted enc_image
   \<and> take 1 (commands (snd (CreateSnapshot (quiet_host None) enc_image ''nightly'' boot))) =
       [(''qemu-img'',
         [''snapshot'', ''--object'', ''secret,id=sec0,data=secret1'', ''--image-opts'',
          ''-c'', ''nightly'',
          ''encrypt.format=luks,encrypt.key-secret=sec0,file.filename=enc.qcow2''])]
   \<and> commands (snd (RestoreSnapshot (quiet_host None) enc_image ''nightly'' boot)) =
       [(''qemu-img'',
         [''snapshot'', ''--object'', ''secret,id=sec0,data=secret1'', ''--image-opts'',
          ''-a'', ''nightly'',
          ''encrypt.format=luks,encrypt.key-secret=sec0,file.filename=enc.qcow2''])]
   \<and> commands (snd (DeleteSnapshot (quiet_host None) enc_image ''nightly'' boot)) =
       [(''qemu-img'',
         [''snapshot'', ''--object'', ''secret,id=sec0,data=secret1'', ''--image-opts'',
          ''-d'', ''nightly'',
          ''encrypt.format=luks,encrypt.key-secret=sec0,file.filename=enc.qcow2''])]"
  using snapshot_commands_show_secret [OF enc_image_Encrypted, of boot "quiet_host None" "''nightly''"]
    enc_image_Encrypted
  by (simp add: boot_def enc_image_eq zero_Image_def)

text \<open>
  C9. Once the snapshot command has succeeded and the list has been refreshed,
  CreateSnapshot returns the first snapshot of the list, in list order, that
  bears the requested name, also when several do; when none does, it returns
  the error of the failed lookup next to the zero snapshot.
\<close>

theorem CreateSnapshot_first_match:
  assumes "CombinedOutput E ''qemu-img'' (snapshot_c_args i name) s = ((out, False), s1)"
    and "Snapshots E i s1 = ((snaps, None), s2)"
  shows "CreateSnapshot E i name s =
     (case find (\<lambda>x. Name x = name) snaps of
        Some first \<Rightarrow> ((first, None), s2)
      | None \<Rightarrow> ((zero_Snapshot, Some (Errorf ''couldn't find newly created snapshot'')), s2))"
proof (cases "Encrypted i")
  case True
  with assms show ?thesis
    by (simp add: CreateSnapshot_def snapshot_c_args_def Let_def find_loop_find
          split: option.splits)
next
  case False
  with assms show ?thesis
    by (simp add: CreateSnapshot_def snapshot_c_args_def Let_def find_loop_find
          split: option.splits)
qed

theorem CreateSnapshot_first_match_witness:
  "CreateSnapshot (quiet_host None) (zero_Image\<lparr>Path := ''a.qcow2''\<rparr>) ''nightly'' boot =
     ((\<lparr>ID = 1, Name = ''nightly'', Date = Unix 1700000000 0, VMClock = Unix 12 500\<rparr>, None),
      \<lparr>host = 2,
       commands = [(''qemu-img'', [''snapshot'', ''-c'', ''nightly'', ''a.qcow2'']),
                   (''qemu-img'', [''info'', ''--output=json'', ''a.qcow2''])]\<rparr>)
   \<and> CreateSnapshot (quiet_host None) (zero_Image\<lparr>Path := ''a.qcow2''\<rparr>) ''weekly'' boot =
     ((zero_Snapshot, Some (Errorf ''couldn't find newly created snapshot'')),
      \<lparr>host = 2,
       commands = [(''qemu-img'', [''snapshot'', ''-c'', ''weekly'', ''a.qcow2'']),
                   (''qemu-img'', [''info'', ''--output=json'', ''a.qcow2''])]\<rparr>)"
  using
    CreateSnapshot_first_match [where E = "quiet_host None"
      and i = "zero_Image\<lparr>Path := ''a.qcow2''\<rparr>" and name = "''nightly''"
      and s = "\<lparr>host = 0, commands = []\<rparr>", OF quiet_run quiet_Snapshots]
    CreateSnapshot_first_match [where E = "quiet_host None"
      and i = "zero_Image\<lparr>Path := ''a.qcow2''\<rparr>" and name = "''weekly''"
      and s = "\<lparr>host = 0, commands = []\<rparr>", OF quiet_run quiet_Snapshots]
  by (simp add: boot_def snapshot_c_args_def zero_Image_def)

subsection \<open>Rebase\<close>

text \<open>
  C10. After Rebase the image is the image before with BackingFile set to the
  argument and no other field changed, whether or not the command succeeded; the
  one command it runs is qemu-img rebase -b with the new backing file and the
  path.
\<close>

theorem Rebase_sets_BackingFile:
  "fst (fst (Rebase E i backingFile s)) = i\<lparr>BackingFile := backingFile\<rparr>
   \<and> commands (snd (Rebase E i backingFile s)) =
       commands s @ [(''qemu-img'', [''rebase'', ''-b'', backingFile, Path i])]"
  by (simp add: Rebase_def Let_def case_prod_beta)

theorem Rebase_sets_BackingFile_witness:
  "Rebase failing_host enc_image ''base.qcow2'' boot =
     ((enc_image\<lparr>BackingFile := ''base.qcow2''\<rparr>,
       Some (Errorf ([CHR 0x27] @ ''qemu-img rebase' output: qemu-img: Could not open''))),
      \<lparr>host = 1, commands = [(''qemu-img'', [''rebase'', ''-b'', ''base.qcow2'', ''enc.qcow2''])]\<rparr>)"
  using Rebase_sets_BackingFile [of failing_host enc_image "''base.qcow2''" boot]
  by (simp add: Rebase_def Let_def CombinedOutput_def failing_host_def scripted_def boot_def
        enc_image_eq zero_Image_def)

end
